theory Spec2Isabelle
  imports Main "HOL-Library.Word" "HOL-Library.Sublist"
begin

section \<open>Bluetooth patch resolution of the EFI builder (efi_builder/bluetooth.py)\<close>

text \<open>
  The class \<open>BuildBluetooth\<close> decides, from the probed Bluetooth chipset or from the
  static model table, which changes to make to the bootloader configuration document, and
  makes them in place on \<open>self.config\<close>. The embedding passes the state explicitly: the
  document, and a journal holding one entry per mutating statement executed, in execution
  order. The journal is what the specification calls the action sequence; the
  specification's patch names \<open>PrimaryBluetoothFixup\<close> and \<open>BluetoothAddressSpoof\<close> are
  the source's \<open>BlueToolFixup.kext\<close> and \<open>Bluetooth-Spoof.kext\<close>, and its chipset tags
  \<open>LegacyHubA\<close>, \<open>LegacyHubB\<close>, \<open>TransitionalHub\<close> are the probe strings
  \<open>BRCM2070 Hub\<close>, \<open>BRCM2046 Hub\<close>, \<open>BRCM20702 Hub\<close>. Calls of \<open>logging.info\<close> change
  neither the document nor the control flow and are left out.
\<close>

subsection \<open>Errors and bytes\<close>

type_synonym byte = "8 word"

datatype error = KeyError string | BinasciiError

text \<open>
  \<open>binascii.unhexlify\<close>: two hexadecimal digits per byte; an odd number of digits or a
  character that is no hexadecimal digit raises \<open>binascii.Error\<close>.
\<close>

definition hex_digit :: "char \<Rightarrow> nat option" where
  "hex_digit c =
     (let n = (of_char c :: nat) in
      if 48 \<le> n \<and> n \<le> 57 then Some (n - 48)
      else if 97 \<le> n \<and> n \<le> 102 then Some (n - 87)
      else if 65 \<le> n \<and> n \<le> 70 then Some (n - 55)
      else None)"

fun unhexlify :: "string \<Rightarrow> error + byte list" where
  "unhexlify [] = Inr []"
| "unhexlify [c] = Inl BinasciiError"
| "unhexlify (a # b # cs) =
     (case hex_digit a of
        None \<Rightarrow> Inl BinasciiError
      | Some h \<Rightarrow>
          (case hex_digit b of
             None \<Rightarrow> Inl BinasciiError
           | Some l \<Rightarrow>
               (case unhexlify cs of
                  Inl e \<Rightarrow> Inl e
                | Inr bs \<Rightarrow> Inr (of_nat (16 * h + l) # bs))))"

subsection \<open>The objects the class reads\<close>

text \<open>
  \<open>device_probe\<close>, \<open>constants\<close> and the data sets are not part of the file; the records
  below hold the attributes that \<open>bluetooth.py\<close> reads from them. Of the WiFi chipset
  only equality with \<open>Broadcom.Chipsets.AirPortBrcm4360\<close> is observed, so every other
  member is \<open>OtherChipset\<close> with its name.
\<close>

datatype wifi_chipset = AirPortBrcm4360 | OtherChipset string

record WirelessCard =
  chipset :: wifi_chipset

record Computer =
  bluetooth_chipset :: "string option"
  wifi :: "WirelessCard option"

record Constants =
  custom_model :: bool
  computer :: Computer
  bluetool_version :: string
  bluetool_path :: string
  btspoof_version :: string
  btspoof_path :: string

text \<open>
  An entry of \<open>smbios_data.smbios_dictionary\<close> is a dictionary; the two keys read here
  are \<open>"CPU Generation"\<close> and \<open>"Bluetooth Model"\<close>, each present or absent. The enum
  values \<open>cpu_data.CPUGen.ivy_bridge.value\<close>, \<open>bluetooth_data.BRCM20702_v1.value\<close> and
  \<open>bluetooth_data.BRCM2070.value\<close> are integers defined outside the file and are taken
  as parameters.
\<close>

record smbios_entry =
  CPU_Generation :: "int option"
  Bluetooth_Model :: "int option"

record datasets =
  smbios_dictionary :: "string \<rightharpoonup> smbios_entry"
  ivy_bridge :: int
  BRCM20702_v1 :: int
  BRCM2070 :: int

record BuildBluetooth =
  model :: string
  constants :: Constants

subsection \<open>The configuration document and the mutations made on it\<close>

text \<open>
  The sections of \<open>self.config\<close> that the file addresses. \<open>boot_args\<close>, \<open>NVRAM_Add\<close>
  and \<open>NVRAM_Delete\<close> are the entries under the GUID
  \<open>7C436110-AB2A-4BBB-A880-FE41995C9F82\<close> of \<open>config["NVRAM"]["Add"]\<close> (the key
  \<open>boot-args\<close>, and the other keys) and of \<open>config["NVRAM"]["Delete"]\<close>;
  \<open>Kernel_Quirks\<close> is \<open>config["Kernel"]["Quirks"]\<close>.
\<close>

record config =
  Kernel_Add :: "(string \<times> string \<times> string) list"
  boot_args :: string
  NVRAM_Add :: "string \<rightharpoonup> byte list"
  NVRAM_Delete :: "string list"
  Kernel_Quirks :: "string \<rightharpoonup> bool"

datatype PatchAction =
    EnablePatch string string string
  | SetBootArgument string
  | SetFirmwareVariable string "byte list"
  | DeleteFirmwareVariable string
  | SetQuirkFlag string bool

text \<open>
  What each mutating statement does to the document:
  \<^item> \<open>d["boot-args"] += " " + token\<close> for \<open>SetBootArgument token\<close>;
  \<^item> \<open>d[key] = bytes\<close> for \<open>SetFirmwareVariable key bytes\<close>;
  \<^item> \<open>l += [key]\<close> for \<open>DeleteFirmwareVariable key\<close>;
  \<^item> \<open>q[key] = flag\<close> for \<open>SetQuirkFlag key flag\<close>.
  The clause for \<open>EnablePatch\<close> is the effect of \<open>enable_kext\<close>, see below.
\<close>

fun apply_action :: "PatchAction \<Rightarrow> config \<Rightarrow> config" where
  "apply_action (EnablePatch name version path) c =
     c\<lparr>Kernel_Add := Kernel_Add c @ [(name, version, path)]\<rparr>"
| "apply_action (SetBootArgument token) c =
     c\<lparr>boot_args := boot_args c @ '' '' @ token\<rparr>"
| "apply_action (SetFirmwareVariable key bytes) c =
     c\<lparr>NVRAM_Add := (NVRAM_Add c)(key \<mapsto> bytes)\<rparr>"
| "apply_action (DeleteFirmwareVariable key) c =
     c\<lparr>NVRAM_Delete := NVRAM_Delete c @ [key]\<rparr>"
| "apply_action (SetQuirkFlag key flag) c =
     c\<lparr>Kernel_Quirks := (Kernel_Quirks c)(key \<mapsto> flag)\<rparr>"

record build_state =
  config :: config
  performed :: "PatchAction list"

definition perform :: "PatchAction \<Rightarrow> build_state \<Rightarrow> build_state" where
  "perform a s = s\<lparr>config := apply_action a (config s), performed := performed s @ [a]\<rparr>"

text \<open>
  A block of statements: each runs on the state its predecessor left; a raise ends the
  block.
\<close>

fun block :: "(build_state \<Rightarrow> error + build_state) list \<Rightarrow> build_state \<Rightarrow> error + build_state" where
  "block [] s = Inr s"
| "block (f # fs) s = (case f s of Inl e \<Rightarrow> Inl e | Inr s' \<Rightarrow> block fs s')"

text \<open>
  Modelled from the spec: \<open>support.BuildSupport.enable_kext\<close> is not part of the file.
  By the specification (External interfaces), \<open>EnablePatch\<close> registers a named patch
  with a version and source-path reference in a patch-enablement list; the call is
  journalled with its three arguments and, on the document, appends them to
  \<open>Kernel_Add\<close>. No property below depends on what the call does to the document.
\<close>

definition enable_kext :: "string \<Rightarrow> string \<Rightarrow> string \<Rightarrow> build_state \<Rightarrow> error + build_state" where
  "enable_kext name version path s = Inr (perform (EnablePatch name version path) s)"

subsection \<open>The methods of BuildBluetooth\<close>

text \<open>
  The methods, statement by statement. \<open>x in [a, b]\<close> is membership in the list;
  \<open>if self.computer.wifi\<close> tests an optional object, which is true when it is there; the
  statement \<open>l += [k1, k2]\<close> of the workaround appends the two keys in that order; the
  subscript \<open>["CPU Generation"]\<close> raises \<open>KeyError\<close> on an entry without that key.
\<close>

definition bluetooth_firmware_incompatibility_workaround :: "build_state \<Rightarrow> error + build_state" where
  "bluetooth_firmware_incompatibility_workaround =
     block
      [\<lambda>s. case unhexlify ''0000000000000000000000000000'' of
              Inl e \<Rightarrow> Inl e
            | Inr bs \<Rightarrow> Inr (perform (SetFirmwareVariable ''bluetoothInternalControllerInfo'' bs) s),
       \<lambda>s. case unhexlify ''00'' of
              Inl e \<Rightarrow> Inl e
            | Inr bs \<Rightarrow> Inr (perform (SetFirmwareVariable ''bluetoothExternalDongleFailed'' bs) s),
       \<lambda>s. Inr (perform (DeleteFirmwareVariable ''bluetoothExternalDongleFailed'')
                  (perform (DeleteFirmwareVariable ''bluetoothInternalControllerInfo'') s))]"

definition on_model :: "datasets \<Rightarrow> BuildBluetooth \<Rightarrow> build_state \<Rightarrow> error + build_state" where
  "on_model d self s =
     (let c = constants self; bt = bluetooth_chipset (computer c) in
      if bt \<in> set [Some ''BRCM2070 Hub'', Some ''BRCM2046 Hub''] then
        block
         [enable_kext ''BlueToolFixup.kext'' (bluetool_version c) (bluetool_path c),
          enable_kext ''Bluetooth-Spoof.kext'' (btspoof_version c) (btspoof_path c),
          \<lambda>s. Inr (perform (SetBootArgument ''-btlfxallowanyaddr'') s),
          bluetooth_firmware_incompatibility_workaround] s
      else if bt = Some ''BRCM20702 Hub'' then
        block
         [\<lambda>s. case wifi (computer c) of
                 None \<Rightarrow> Inr s
               | Some w \<Rightarrow>
                   if chipset w = AirPortBrcm4360
                   then enable_kext ''BlueToolFixup.kext'' (bluetool_version c) (bluetool_path c) s
                   else Inr s,
          \<lambda>s. case smbios_dictionary d (model self) of
                 None \<Rightarrow> Inr s
               | Some entry \<Rightarrow>
                   (case CPU_Generation entry of
                      None \<Rightarrow> Inl (KeyError ''CPU Generation'')
                    | Some g \<Rightarrow>
                        if g < ivy_bridge d
                        then block
                              [enable_kext ''BlueToolFixup.kext'' (bluetool_version c) (bluetool_path c),
                               bluetooth_firmware_incompatibility_workaround] s
                        else Inr s)] s
      else if bt \<in> set [Some ''3rd Party Bluetooth 4.0 Hub'', Some ''Generic''] then
        block
         [enable_kext ''BlueToolFixup.kext'' (bluetool_version c) (bluetool_path c),
          \<lambda>s. Inr (perform (SetQuirkFlag ''ExtendBTFeatureFlags'' True) s)] s
      else Inr s)"

definition prebuilt_assumption :: "datasets \<Rightarrow> BuildBluetooth \<Rightarrow> build_state \<Rightarrow> error + build_state" where
  "prebuilt_assumption d self s =
     (let c = constants self in
      case smbios_dictionary d (model self) of
        None \<Rightarrow> Inr s
      | Some entry \<Rightarrow>
          (case Bluetooth_Model entry of
             None \<Rightarrow> Inr s
           | Some tier \<Rightarrow>
               if tier \<le> BRCM20702_v1 d then
                 block
                  [enable_kext ''BlueToolFixup.kext'' (bluetool_version c) (bluetool_path c),
                   \<lambda>s. if tier \<le> BRCM2070 d then
                          block
                           [\<lambda>s. Inr (perform (SetBootArgument ''-btlfxallowanyaddr'') s),
                            bluetooth_firmware_incompatibility_workaround,
                            enable_kext ''Bluetooth-Spoof.kext'' (btspoof_version c) (btspoof_path c)] s
                        else Inr s] s
               else Inr s))"

text \<open>Python's truth value of an optional string: \<open>None\<close> and \<open>""\<close> are false.\<close>

fun truthy :: "string option \<Rightarrow> bool" where
  "truthy None = False"
| "truthy (Some t) = (t \<noteq> [])"

definition build :: "datasets \<Rightarrow> BuildBluetooth \<Rightarrow> build_state \<Rightarrow> error + build_state" where
  "build d self s =
     (if \<not> custom_model (constants self) \<and> truthy (bluetooth_chipset (computer (constants self)))
      then on_model d self s
      else prebuilt_assumption d self s)"

text \<open>
  \<open>__init__\<close> stores its arguments and runs \<open>_build\<close>; the journal of the new object
  is empty.
\<close>

definition init :: "datasets \<Rightarrow> string \<Rightarrow> Constants \<Rightarrow> config \<Rightarrow> error + build_state" where
  "init d m global_constants cfg =
     build d \<lparr>model = m, constants = global_constants\<rparr> \<lparr>config = cfg, performed = []\<rparr>"

subsection \<open>The actions a call performs\<close>

definition actions_of :: "error + build_state \<Rightarrow> error + PatchAction list" where
  "actions_of r = (case r of Inl e \<Rightarrow> Inl e | Inr s \<Rightarrow> Inr (performed s))"

definition fresh :: "config \<Rightarrow> build_state" where
  "fresh cfg = \<lparr>config = cfg, performed = []\<rparr>"

fun perform_all :: "PatchAction list \<Rightarrow> build_state \<Rightarrow> build_state" where
  "perform_all [] s = s"
| "perform_all (a # as) s = perform_all as (perform a s)"

definition zeros :: "nat \<Rightarrow> byte list" where
  "zeros n = replicate n 0"

definition workaround_actions :: "PatchAction list" where
  "workaround_actions =
     [SetFirmwareVariable ''bluetoothInternalControllerInfo'' (zeros 14),
      SetFirmwareVariable ''bluetoothExternalDongleFailed'' (zeros 1),
      DeleteFirmwareVariable ''bluetoothInternalControllerInfo'',
      DeleteFirmwareVariable ''bluetoothExternalDongleFailed'']"

text \<open>
  The two patch requests, and for each evaluator the actions it is expected to perform,
  as a function of what it reads. The plans are not part of the source; the lemmas
  \<open>on_model_plan\<close> and \<open>prebuilt_assumption_plan\<close> below prove that the methods
  perform exactly them.
\<close>

definition BlueToolFixup :: "Constants \<Rightarrow> PatchAction" where
  "BlueToolFixup c = EnablePatch ''BlueToolFixup.kext'' (bluetool_version c) (bluetool_path c)"

definition BluetoothSpoof :: "Constants \<Rightarrow> PatchAction" where
  "BluetoothSpoof c = EnablePatch ''Bluetooth-Spoof.kext'' (btspoof_version c) (btspoof_path c)"

definition run_plan :: "error + PatchAction list \<Rightarrow> build_state \<Rightarrow> error + build_state" where
  "run_plan r s = (case r of Inl e \<Rightarrow> Inl e | Inr as \<Rightarrow> Inr (perform_all as s))"

definition wifi_is_4360 :: "Computer \<Rightarrow> bool" where
  "wifi_is_4360 pc = (case wifi pc of None \<Rightarrow> False | Some w \<Rightarrow> chipset w = AirPortBrcm4360)"

definition live_plan :: "datasets \<Rightarrow> BuildBluetooth \<Rightarrow> error + PatchAction list" where
  "live_plan d self =
     (let c = constants self; bt = bluetooth_chipset (computer c) in
      if bt = Some ''BRCM2070 Hub'' \<or> bt = Some ''BRCM2046 Hub'' then
        Inr ([BlueToolFixup c, BluetoothSpoof c, SetBootArgument ''-btlfxallowanyaddr'']
             @ workaround_actions)
      else if bt = Some ''BRCM20702 Hub'' then
        (case smbios_dictionary d (model self) of
           None \<Rightarrow> Inr (if wifi_is_4360 (computer c) then [BlueToolFixup c] else [])
         | Some entry \<Rightarrow>
             (case CPU_Generation entry of
                None \<Rightarrow> Inl (KeyError ''CPU Generation'')
              | Some g \<Rightarrow>
                  Inr ((if wifi_is_4360 (computer c) then [BlueToolFixup c] else [])
                       @ (if g < ivy_bridge d then BlueToolFixup c # workaround_actions else []))))
      else if bt = Some ''3rd Party Bluetooth 4.0 Hub'' \<or> bt = Some ''Generic'' then
        Inr [BlueToolFixup c, SetQuirkFlag ''ExtendBTFeatureFlags'' True]
      else Inr [])"

definition fallback_plan :: "datasets \<Rightarrow> BuildBluetooth \<Rightarrow> PatchAction list" where
  "fallback_plan d self =
     (let c = constants self in
      case smbios_dictionary d (model self) of
        None \<Rightarrow> []
      | Some entry \<Rightarrow>
          (case Bluetooth_Model entry of
             None \<Rightarrow> []
           | Some tier \<Rightarrow>
               if tier \<le> BRCM20702_v1 d then
                 BlueToolFixup c #
                 (if tier \<le> BRCM2070 d
                  then SetBootArgument ''-btlfxallowanyaddr'' # workaround_actions @ [BluetoothSpoof c]
                  else [])
               else []))"

subsection \<open>Vocabulary of the properties\<close>

definition with_chipset :: "BuildBluetooth \<Rightarrow> string \<Rightarrow> BuildBluetooth" where
  "with_chipset self t =
     self\<lparr>constants := (constants self)\<lparr>computer :=
       (computer (constants self))\<lparr>bluetooth_chipset := Some t\<rparr>\<rparr>\<rparr>"

fun is_firmware_action :: "PatchAction \<Rightarrow> bool" where
  "is_firmware_action (SetFirmwareVariable key bytes) = True"
| "is_firmware_action (DeleteFirmwareVariable key) = True"
| "is_firmware_action a = False"

definition with_tier :: "datasets \<Rightarrow> string \<Rightarrow> smbios_entry \<Rightarrow> int \<Rightarrow> datasets" where
  "with_tier d m entry t =
     d\<lparr>smbios_dictionary := (smbios_dictionary d)(m \<mapsto> entry\<lparr>Bluetooth_Model := Some t\<rparr>)\<rparr>"

definition emits :: "error + PatchAction list \<Rightarrow> PatchAction \<Rightarrow> bool" where
  "emits r a = (case r of Inl e \<Rightarrow> False | Inr as \<Rightarrow> a \<in> set as)"

definition emits_block :: "error + PatchAction list \<Rightarrow> PatchAction list \<Rightarrow> bool" where
  "emits_block r bs = (case r of Inl e \<Rightarrow> False | Inr as \<Rightarrow> sublist bs as)"

definition extended_sequence :: "Constants \<Rightarrow> PatchAction list" where
  "extended_sequence c =
     SetBootArgument ''-btlfxallowanyaddr'' # workaround_actions @ [BluetoothSpoof c]"

definition document_of :: "error + build_state \<Rightarrow> error + config" where
  "document_of r = (case r of Inl e \<Rightarrow> Inl e | Inr s \<Rightarrow> Inr (config s))"

subsection \<open>Example inputs\<close>

text \<open>
  A document, a model table with the thresholds of the enums, and the constants of a
  build, used to run the methods on concrete inputs.
\<close>

definition example_config :: config where
  "example_config =
     \<lparr>Kernel_Add = [], boot_args = ''keepsyms=1 debug=0x100'', NVRAM_Add = Map.empty,
      NVRAM_Delete = [], Kernel_Quirks = Map.empty\<rparr>"

definition example_datasets :: datasets where
  "example_datasets =
     \<lparr>smbios_dictionary =
        [''MacBookPro8,1'' \<mapsto> \<lparr>CPU_Generation = Some 4, Bluetooth_Model = Some 4\<rparr>,
         ''iMac13,1'' \<mapsto> \<lparr>CPU_Generation = Some 5, Bluetooth_Model = Some 5\<rparr>,
         ''MacPro3,1'' \<mapsto> \<lparr>CPU_Generation = Some 2, Bluetooth_Model = None\<rparr>],
      ivy_bridge = 5, BRCM20702_v1 = 5, BRCM2070 = 4\<rparr>"

definition example_constants :: "bool \<Rightarrow> string option \<Rightarrow> WirelessCard option \<Rightarrow> Constants" where
  "example_constants custom bt w =
     \<lparr>custom_model = custom,
      computer = \<lparr>bluetooth_chipset = bt, wifi = w\<rparr>,
      bluetool_version = ''2.6.8'', bluetool_path = ''BlueToolFixup-v2.6.8.zip'',
      btspoof_version = ''1.0.0'', btspoof_path = ''Bluetooth-Spoof-v1.0.0.zip''\<rparr>"

section \<open>Properties\<close>

lemma unhexlify_28: "unhexlify ''0000000000000000000000000000'' = Inr (zeros 14)"
  by (simp add: hex_digit_def zeros_def eval_nat_numeral)

lemma unhexlify_2: "unhexlify ''00'' = Inr (zeros 1)"
  by (simp add: hex_digit_def zeros_def)

lemma workaround_performs:
  "bluetooth_firmware_incompatibility_workaround s = Inr (perform_all workaround_actions s)"
  by (simp add: bluetooth_firmware_incompatibility_workaround_def workaround_actions_def
      unhexlify_28 unhexlify_2 del: unhexlify.simps)

subsection \<open>The methods perform their plans\<close>

lemma perform_all_append: "perform_all (as @ bs) s = perform_all bs (perform_all as s)"
  by (induction as arbitrary: s) simp_all

lemma performed_perform_all: "performed (perform_all as s) = performed s @ as"
  by (induction as arbitrary: s) (simp_all add: perform_def)

lemma config_perform_all: "config (perform_all as s) = fold apply_action as (config s)"
  by (induction as arbitrary: s) (simp_all add: perform_def)

lemma enable_BlueToolFixup:
  "enable_kext ''BlueToolFixup.kext'' (bluetool_version c) (bluetool_path c) s
     = Inr (perform (BlueToolFixup c) s)"
  by (simp add: enable_kext_def BlueToolFixup_def)

lemma enable_BluetoothSpoof:
  "enable_kext ''Bluetooth-Spoof.kext'' (btspoof_version c) (btspoof_path c) s
     = Inr (perform (BluetoothSpoof c) s)"
  by (simp add: enable_kext_def BluetoothSpoof_def)

lemmas stmt_simps = enable_BlueToolFixup enable_BluetoothSpoof workaround_performs
  perform_all_append

lemma on_model_plan: "on_model d self s = run_plan (live_plan d self) s"
  by (simp add: on_model_def live_plan_def run_plan_def Let_def stmt_simps wifi_is_4360_def
      split: option.splits)

lemma prebuilt_assumption_plan:
  "prebuilt_assumption d self s = Inr (perform_all (fallback_plan d self) s)"
  by (simp add: prebuilt_assumption_def fallback_plan_def Let_def stmt_simps
      split: option.splits)

lemma actions_of_run_plan: "actions_of (run_plan r (fresh cfg)) = r"
  by (cases r) (simp_all add: actions_of_def run_plan_def performed_perform_all fresh_def)

lemma actions_of_on_model: "actions_of (on_model d self (fresh cfg)) = live_plan d self"
  by (simp add: on_model_plan actions_of_run_plan)

lemma actions_of_prebuilt_assumption:
  "actions_of (prebuilt_assumption d self (fresh cfg)) = Inr (fallback_plan d self)"
  by (simp add: prebuilt_assumption_plan actions_of_def performed_perform_all fresh_def)

lemmas example_simps = example_config_def example_datasets_def example_constants_def
  BlueToolFixup_def BluetoothSpoof_def workaround_actions_def

subsection \<open>The live evaluator\<close>

text \<open>
  Claim C1. With the chipset \<open>BRCM20702 Hub\<close>, \<open>_on_model\<close> runs two independent
  checks. When the WiFi card is present and its chipset is \<open>AirPortBrcm4360\<close>, it
  enables \<open>BlueToolFixup.kext\<close>, whatever the CPU generation. When the model has an entry
  in the table whose CPU generation is below \<open>ivy_bridge\<close>, it enables
  \<open>BlueToolFixup.kext\<close> and runs the firmware-incompatibility workaround, whatever the
  WiFi card. When both hold the patch is enabled twice; when neither holds (no such WiFi
  card, and the model is not in the table or its generation is at or above the threshold)
  nothing is performed.
\<close>

theorem transitional_hub_conditions:
  assumes "bluetooth_chipset (computer (constants self)) = Some ''BRCM20702 Hub''"
  shows "(smbios_dictionary d (model self) = None \<longrightarrow>
            actions_of (on_model d self (fresh cfg)) =
              Inr (if wifi_is_4360 (computer (constants self))
                   then [BlueToolFixup (constants self)] else []))
       \<and> (\<forall>entry g. smbios_dictionary d (model self) = Some entry \<and> CPU_Generation entry = Some g \<longrightarrow>
            actions_of (on_model d self (fresh cfg)) =
              Inr ((if wifi_is_4360 (computer (constants self))
                    then [BlueToolFixup (constants self)] else [])
                   @ (if g < ivy_bridge d
                      then [BlueToolFixup (constants self),
                            SetFirmwareVariable ''bluetoothInternalControllerInfo'' (replicate 14 0),
                            SetFirmwareVariable ''bluetoothExternalDongleFailed'' [0],
                            DeleteFirmwareVariable ''bluetoothInternalControllerInfo'',
                            DeleteFirmwareVariable ''bluetoothExternalDongleFailed'']
                      else [])))"
  using assms
  by (simp add: actions_of_on_model live_plan_def Let_def workaround_actions_def zeros_def)

text \<open>
  The theorem at a 2011 MacBook Pro (Sandy Bridge, generation 4 below the threshold 5)
  with an \<open>AirPortBrcm4360\<close> card: both checks fire, the patch is enabled twice.
\<close>

theorem transitional_hub_conditions_witness:
  "bluetooth_chipset (computer (constants
       \<lparr>model = ''MacBookPro8,1'',
        constants = example_constants False (Some ''BRCM20702 Hub'') (Some \<lparr>chipset = AirPortBrcm4360\<rparr>)\<rparr>))
     = Some ''BRCM20702 Hub''
   \<and> smbios_dictionary example_datasets ''MacBookPro8,1''
       = Some \<lparr>CPU_Generation = Some 4, Bluetooth_Model = Some 4\<rparr>
   \<and> (4::int) < ivy_bridge example_datasets
   \<and> actions_of (on_model example_datasets
        \<lparr>model = ''MacBookPro8,1'',
         constants = example_constants False (Some ''BRCM20702 Hub'') (Some \<lparr>chipset = AirPortBrcm4360\<rparr>)\<rparr>
        (fresh example_config))
      = Inr [EnablePatch ''BlueToolFixup.kext'' ''2.6.8'' ''BlueToolFixup-v2.6.8.zip'',
             EnablePatch ''BlueToolFixup.kext'' ''2.6.8'' ''BlueToolFixup-v2.6.8.zip'',
             SetFirmwareVariable ''bluetoothInternalControllerInfo'' (replicate 14 0),
             SetFirmwareVariable ''bluetoothExternalDongleFailed'' [0],
             DeleteFirmwareVariable ''bluetoothInternalControllerInfo'',
             DeleteFirmwareVariable ''bluetoothExternalDongleFailed'']"
proof -
  let ?self = "\<lparr>model = ''MacBookPro8,1'',
        constants = example_constants False (Some ''BRCM20702 Hub'') (Some \<lparr>chipset = AirPortBrcm4360\<rparr>)\<rparr>"
  have h: "bluetooth_chipset (computer (constants ?self)) = Some ''BRCM20702 Hub''"
    by (simp add: example_constants_def)
  have e: "smbios_dictionary example_datasets (model ?self)
             = Some \<lparr>CPU_Generation = Some 4, Bluetooth_Model = Some 4\<rparr>
           \<and> CPU_Generation \<lparr>CPU_Generation = Some 4, Bluetooth_Model = Some 4\<rparr> = Some 4"
    by (simp add: example_datasets_def)
  show ?thesis
    using h e
      transitional_hub_conditions [OF h, of example_datasets example_config,
        THEN conjunct2, rule_format, OF e]
    by (simp add: example_simps wifi_is_4360_def)
qed

text \<open>
  Claim C2. Whatever the model table and the document, \<open>_on_model\<close> with the chipset
  \<open>BRCM2070 Hub\<close> and with the chipset \<open>BRCM2046 Hub\<close> performs the same seven
  actions in the same order: enable \<open>BlueToolFixup.kext\<close>, enable
  \<open>Bluetooth-Spoof.kext\<close>, append the boot argument \<open>-btlfxallowanyaddr\<close>, then the
  four actions of the workaround (two firmware variables set, two marked for deletion).
\<close>

theorem legacy_hubs_same_sequence:
  "actions_of (on_model d (with_chipset self ''BRCM2070 Hub'') (fresh cfg)) =
     Inr [BlueToolFixup (constants self), BluetoothSpoof (constants self),
          SetBootArgument ''-btlfxallowanyaddr'',
          SetFirmwareVariable ''bluetoothInternalControllerInfo'' (replicate 14 0),
          SetFirmwareVariable ''bluetoothExternalDongleFailed'' [0],
          DeleteFirmwareVariable ''bluetoothInternalControllerInfo'',
          DeleteFirmwareVariable ''bluetoothExternalDongleFailed'']
   \<and> actions_of (on_model d' (with_chipset self ''BRCM2046 Hub'') (fresh cfg')) =
       actions_of (on_model d (with_chipset self ''BRCM2070 Hub'') (fresh cfg))"
  by (simp add: actions_of_on_model live_plan_def Let_def with_chipset_def
      workaround_actions_def zeros_def BlueToolFixup_def BluetoothSpoof_def)

subsection \<open>The fallback evaluator\<close>

text \<open>
  Claim C3. For a model whose entry has a Bluetooth tier: when the tier is at most
  \<open>BRCM20702_v1\<close>, \<open>_prebuilt_assumption\<close> enables \<open>BlueToolFixup.kext\<close>; when the
  tier is also at most \<open>BRCM2070\<close>, it then appends the boot argument
  \<open>-btlfxallowanyaddr\<close>, runs the four actions of the workaround and last enables
  \<open>Bluetooth-Spoof.kext\<close>, seven actions in that order; when the tier is above
  \<open>BRCM20702_v1\<close> nothing is performed.
\<close>

theorem fallback_by_tier:
  assumes "smbios_dictionary d (model self) = Some entry"
    and "Bluetooth_Model entry = Some tier"
  shows "actions_of (prebuilt_assumption d self (fresh cfg)) =
     Inr (if tier \<le> BRCM20702_v1 d then
            BlueToolFixup (constants self) #
            (if tier \<le> BRCM2070 d then
               [SetBootArgument ''-btlfxallowanyaddr'',
                SetFirmwareVariable ''bluetoothInternalControllerInfo'' (replicate 14 0),
                SetFirmwareVariable ''bluetoothExternalDongleFailed'' [0],
                DeleteFirmwareVariable ''bluetoothInternalControllerInfo'',
                DeleteFirmwareVariable ''bluetoothExternalDongleFailed'',
                BluetoothSpoof (constants self)]
             else [])
          else [])"
  using assms
  by (simp add: actions_of_prebuilt_assumption fallback_plan_def Let_def
      workaround_actions_def zeros_def)

text \<open>
  The theorem at a model of tier 4 (\<open>BRCM2070\<close>): all seven actions.
\<close>

theorem fallback_by_tier_witness:
  "smbios_dictionary example_datasets ''MacBookPro8,1''
       = Some \<lparr>CPU_Generation = Some 4, Bluetooth_Model = Some 4\<rparr>
   \<and> actions_of (prebuilt_assumption example_datasets
        \<lparr>model = ''MacBookPro8,1'', constants = example_constants True None None\<rparr>
        (fresh example_config))
      = Inr [EnablePatch ''BlueToolFixup.kext'' ''2.6.8'' ''BlueToolFixup-v2.6.8.zip'',
             SetBootArgument ''-btlfxallowanyaddr'',
             SetFirmwareVariable ''bluetoothInternalControllerInfo'' (replicate 14 0),
             SetFirmwareVariable ''bluetoothExternalDongleFailed'' [0],
             DeleteFirmwareVariable ''bluetoothInternalControllerInfo'',
             DeleteFirmwareVariable ''bluetoothExternalDongleFailed'',
             EnablePatch ''Bluetooth-Spoof.kext'' ''1.0.0'' ''Bluetooth-Spoof-v1.0.0.zip'']"
proof -
  let ?self = "\<lparr>model = ''MacBookPro8,1'', constants = example_constants True None None\<rparr>"
  let ?entry = "\<lparr>CPU_Generation = Some 4, Bluetooth_Model = Some 4\<rparr>"
  have e: "smbios_dictionary example_datasets (model ?self) = Some ?entry"
    by (simp add: example_datasets_def)
  have t: "Bluetooth_Model ?entry = Some 4"
    by simp
  show ?thesis
    using e fallback_by_tier [OF e t, of example_config]
    by (simp add: example_simps)
qed

subsection \<open>The firmware-incompatibility workaround\<close>

text \<open>
  Claim C4, as stated, asks for 15 zero bytes in \<open>bluetoothInternalControllerInfo\<close>.
  The literal passed to \<open>unhexlify\<close> has 28 hexadecimal digits, which are 14 bytes: the
  actions performed are not those with a 15-byte value.
\<close>

theorem workaround_byte_count_counterexample:
  "actions_of (bluetooth_firmware_incompatibility_workaround (fresh example_config)) \<noteq>
     Inr [SetFirmwareVariable ''bluetoothInternalControllerInfo'' (replicate 15 0),
          SetFirmwareVariable ''bluetoothExternalDongleFailed'' (replicate 1 0),
          DeleteFirmwareVariable ''bluetoothInternalControllerInfo'',
          DeleteFirmwareVariable ''bluetoothExternalDongleFailed'']"
  by (simp add: workaround_performs actions_of_def perform_def fresh_def
      workaround_actions_def zeros_def)

text \<open>
  Claim C4, amended. The workaround sets \<open>bluetoothInternalControllerInfo\<close> to exactly
  14 zero bytes and \<open>bluetoothExternalDongleFailed\<close> to exactly 1 zero byte, and then
  marks both keys for deletion, in that order; it never raises.
\<close>

theorem workaround_sets_then_deletes:
  "\<exists>s'. bluetooth_firmware_incompatibility_workaround s = Inr s'
     \<and> performed s' = performed s @
          [SetFirmwareVariable ''bluetoothInternalControllerInfo'' (replicate 14 0),
           SetFirmwareVariable ''bluetoothExternalDongleFailed'' (replicate 1 0),
           DeleteFirmwareVariable ''bluetoothInternalControllerInfo'',
           DeleteFirmwareVariable ''bluetoothExternalDongleFailed'']
     \<and> NVRAM_Add (config s') =
          (NVRAM_Add (config s))
            (''bluetoothInternalControllerInfo'' \<mapsto> replicate 14 0,
             ''bluetoothExternalDongleFailed'' \<mapsto> replicate 1 0)
     \<and> NVRAM_Delete (config s') =
          NVRAM_Delete (config s) @
            [''bluetoothInternalControllerInfo'', ''bluetoothExternalDongleFailed'']"
  by (simp add: workaround_performs perform_def workaround_actions_def zeros_def)

subsection \<open>The resolver\<close>

text \<open>
  Claim C5. \<open>_build\<close> runs \<open>_on_model\<close> exactly when \<open>custom_model\<close> is false and
  a Bluetooth chipset was detected (Python's truth value of \<open>bluetooth_chipset\<close>: a
  string that is not empty); in every other case it runs \<open>_prebuilt_assumption\<close>, which
  works from \<open>self.model\<close>. Each pass is the run of exactly one of the two.
\<close>

theorem resolver_dispatch:
  "(\<not> custom_model (constants self) \<and> truthy (bluetooth_chipset (computer (constants self)))
      \<longrightarrow> build d self s = on_model d self s)
   \<and> (custom_model (constants self) \<or> \<not> truthy (bluetooth_chipset (computer (constants self)))
      \<longrightarrow> build d self s = prebuilt_assumption d self s)"
  by (simp add: build_def)

text \<open>
  The theorem at a detected \<open>Generic\<close> chipset without the override (live), and with
  the override set (fallback).
\<close>

theorem resolver_dispatch_witness:
  "\<not> custom_model (example_constants False (Some ''Generic'') None)
   \<and> truthy (bluetooth_chipset (computer (example_constants False (Some ''Generic'') None)))
   \<and> build example_datasets
        \<lparr>model = ''MacPro3,1'', constants = example_constants False (Some ''Generic'') None\<rparr>
        (fresh example_config)
      = on_model example_datasets
        \<lparr>model = ''MacPro3,1'', constants = example_constants False (Some ''Generic'') None\<rparr>
        (fresh example_config)
   \<and> custom_model (example_constants True (Some ''Generic'') None)
   \<and> build example_datasets
        \<lparr>model = ''MacBookPro8,1'', constants = example_constants True (Some ''Generic'') None\<rparr>
        (fresh example_config)
      = prebuilt_assumption example_datasets
        \<lparr>model = ''MacBookPro8,1'', constants = example_constants True (Some ''Generic'') None\<rparr>
        (fresh example_config)"
  using
    resolver_dispatch [of "\<lparr>model = ''MacPro3,1'', constants = example_constants False (Some ''Generic'') None\<rparr>"
      example_datasets "fresh example_config"]
    resolver_dispatch [of "\<lparr>model = ''MacBookPro8,1'', constants = example_constants True (Some ''Generic'') None\<rparr>"
      example_datasets "fresh example_config"]
  by (simp add: example_constants_def)

subsection \<open>Inputs that match nothing\<close>

text \<open>
  Claim C7. Neither evaluator raises on an input it does not know: for a chipset that
  is none of the five known strings \<open>_on_model\<close> returns normally with nothing
  performed; for a model without an entry in the table, or whose entry has no
  \<open>"Bluetooth Model"\<close>, \<open>_prebuilt_assumption\<close> returns normally with nothing performed.
  The result \<open>Inr s\<close> is the normal return on the unchanged state: no error, document and
  journal as they were.
\<close>

theorem unmatched_inputs_perform_nothing:
  "(bluetooth_chipset (computer (constants self)) \<notin>
      set [Some ''BRCM2070 Hub'', Some ''BRCM2046 Hub'', Some ''BRCM20702 Hub'',
           Some ''3rd Party Bluetooth 4.0 Hub'', Some ''Generic'']
      \<longrightarrow> on_model d self s = Inr s \<and> actions_of (on_model d self (fresh cfg)) = Inr [])
   \<and> (smbios_dictionary d (model self) = None
      \<longrightarrow> prebuilt_assumption d self s = Inr s
          \<and> actions_of (prebuilt_assumption d self (fresh cfg)) = Inr [])
   \<and> (\<forall>entry. smbios_dictionary d (model self) = Some entry \<and> Bluetooth_Model entry = None
      \<longrightarrow> prebuilt_assumption d self s = Inr s
          \<and> actions_of (prebuilt_assumption d self (fresh cfg)) = Inr [])"
  by (simp add: on_model_def prebuilt_assumption_def actions_of_def fresh_def Let_def)

text \<open>
  The theorem at an unknown chipset string, at a model that is not in the table and at
  a model whose entry has no Bluetooth tier.
\<close>

theorem unmatched_inputs_perform_nothing_witness:
  "bluetooth_chipset (computer (example_constants False (Some ''BRCM20703 Hub'') None)) \<notin>
      set [Some ''BRCM2070 Hub'', Some ''BRCM2046 Hub'', Some ''BRCM20702 Hub'',
           Some ''3rd Party Bluetooth 4.0 Hub'', Some ''Generic'']
   \<and> actions_of (on_model example_datasets
        \<lparr>model = ''MacPro3,1'', constants = example_constants False (Some ''BRCM20703 Hub'') None\<rparr>
        (fresh example_config)) = Inr []
   \<and> smbios_dictionary example_datasets ''MacPro7,1'' = None
   \<and> actions_of (prebuilt_assumption example_datasets
        \<lparr>model = ''MacPro7,1'', constants = example_constants True None None\<rparr>
        (fresh example_config)) = Inr []
   \<and> smbios_dictionary example_datasets ''MacPro3,1''
        = Some \<lparr>CPU_Generation = Some 2, Bluetooth_Model = None\<rparr>
   \<and> actions_of (prebuilt_assumption example_datasets
        \<lparr>model = ''MacPro3,1'', constants = example_constants True None None\<rparr>
        (fresh example_config)) = Inr []"
proof -
  let ?live = "\<lparr>model = ''MacPro3,1'', constants = example_constants False (Some ''BRCM20703 Hub'') None\<rparr>"
  let ?absent = "\<lparr>model = ''MacPro7,1'', constants = example_constants True None None\<rparr>"
  let ?tierless = "\<lparr>model = ''MacPro3,1'', constants = example_constants True None None\<rparr>"
  let ?entry = "\<lparr>CPU_Generation = Some 2, Bluetooth_Model = None\<rparr>"
  have tag: "bluetooth_chipset (computer (constants ?live)) \<notin>
      set [Some ''BRCM2070 Hub'', Some ''BRCM2046 Hub'', Some ''BRCM20702 Hub'',
           Some ''3rd Party Bluetooth 4.0 Hub'', Some ''Generic'']"
    by (simp add: example_constants_def)
  have none: "smbios_dictionary example_datasets (model ?absent) = None"
    by (simp add: example_datasets_def)
  have some: "smbios_dictionary example_datasets (model ?tierless) = Some ?entry
                \<and> Bluetooth_Model ?entry = None"
    by (simp add: example_datasets_def)
  have 1: "actions_of (on_model example_datasets ?live (fresh example_config)) = Inr []"
    using unmatched_inputs_perform_nothing [of ?live example_datasets "fresh example_config" example_config,
        THEN conjunct1, rule_format, OF tag, THEN conjunct2]
    by simp
  have 2: "actions_of (prebuilt_assumption example_datasets ?absent (fresh example_config)) = Inr []"
    using unmatched_inputs_perform_nothing [of ?absent example_datasets "fresh example_config" example_config,
        THEN conjunct2, THEN conjunct1, rule_format, OF none, THEN conjunct2]
    by simp
  have 3: "actions_of (prebuilt_assumption example_datasets ?tierless (fresh example_config)) = Inr []"
    using unmatched_inputs_perform_nothing [of ?tierless example_datasets "fresh example_config" example_config,
        THEN conjunct2, THEN conjunct2, rule_format, OF some, THEN conjunct2]
    by simp
  show ?thesis
    using tag none some 1 2 3 by simp
qed

subsection \<open>Monotonicity of the fallback evaluator\<close>

lemma fallback_plan_tier:
  "fallback_plan (with_tier d (model self) entry t) self =
     (if t \<le> BRCM20702_v1 d then
        BlueToolFixup (constants self) #
        (if t \<le> BRCM2070 d then extended_sequence (constants self) else [])
      else [])"
  by (simp add: fallback_plan_def with_tier_def extended_sequence_def Let_def)

text \<open>
  Claim C6. Take two tiers \<open>A < B\<close> for the same model, everything else equal. If
  \<open>_prebuilt_assumption\<close> at tier \<open>B\<close> enables \<open>BlueToolFixup.kext\<close>, so it does at
  tier \<open>A\<close>; and if at tier \<open>B\<close> it performs the extended sequence (boot argument,
  workaround, \<open>Bluetooth-Spoof.kext\<close>), so it does at tier \<open>A\<close>.
\<close>

theorem fallback_monotonic_in_tier:
  assumes "A < B"
  shows "(emits (actions_of (prebuilt_assumption (with_tier d (model self) entry B) self (fresh cfg)))
            (BlueToolFixup (constants self))
          \<longrightarrow> emits (actions_of (prebuilt_assumption (with_tier d (model self) entry A) self (fresh cfg)))
                (BlueToolFixup (constants self)))
       \<and> (emits_block (actions_of (prebuilt_assumption (with_tier d (model self) entry B) self (fresh cfg)))
            (extended_sequence (constants self))
          \<longrightarrow> emits_block (actions_of (prebuilt_assumption (with_tier d (model self) entry A) self (fresh cfg)))
                (extended_sequence (constants self)))"
proof -
  have ext_not_nil: "extended_sequence (constants self) \<noteq> []"
    by (simp add: extended_sequence_def)
  have ext_not_single: "\<not> sublist (extended_sequence (constants self)) [BlueToolFixup (constants self)]"
    by (simp add: extended_sequence_def sublist_Cons_right BlueToolFixup_def)
  show ?thesis
    using assms ext_not_nil ext_not_single
    by (auto simp add: actions_of_prebuilt_assumption fallback_plan_tier emits_def emits_block_def
        split: if_splits)
qed

text \<open>
  The theorem at tiers 3 and 4 with the threshold \<open>BRCM2070 = 4\<close>: tier 4 performs the
  base patch and the extended sequence, and so does tier 3.
\<close>

theorem fallback_monotonic_in_tier_witness:
  "(3::int) < 4
   \<and> emits (actions_of (prebuilt_assumption
        (with_tier example_datasets ''MacBookPro8,1'' \<lparr>CPU_Generation = Some 4, Bluetooth_Model = None\<rparr> 4)
        \<lparr>model = ''MacBookPro8,1'', constants = example_constants True None None\<rparr>
        (fresh example_config)))
        (BlueToolFixup (example_constants True None None))
   \<and> emits (actions_of (prebuilt_assumption
        (with_tier example_datasets ''MacBookPro8,1'' \<lparr>CPU_Generation = Some 4, Bluetooth_Model = None\<rparr> 3)
        \<lparr>model = ''MacBookPro8,1'', constants = example_constants True None None\<rparr>
        (fresh example_config)))
        (BlueToolFixup (example_constants True None None))
   \<and> emits_block (actions_of (prebuilt_assumption
        (with_tier example_datasets ''MacBookPro8,1'' \<lparr>CPU_Generation = Some 4, Bluetooth_Model = None\<rparr> 4)
        \<lparr>model = ''MacBookPro8,1'', constants = example_constants True None None\<rparr>
        (fresh example_config)))
        (extended_sequence (example_constants True None None))
   \<and> emits_block (actions_of (prebuilt_assumption
        (with_tier example_datasets ''MacBookPro8,1'' \<lparr>CPU_Generation = Some 4, Bluetooth_Model = None\<rparr> 3)
        \<lparr>model = ''MacBookPro8,1'', constants = example_constants True None None\<rparr>
        (fresh example_config)))
        (extended_sequence (example_constants True None None))"
proof -
  let ?self = "\<lparr>model = ''MacBookPro8,1'', constants = example_constants True None None\<rparr>"
  let ?entry = "\<lparr>CPU_Generation = Some 4, Bluetooth_Model = None\<rparr>"
  have lt: "(3::int) < 4" by simp
  have B: "actions_of (prebuilt_assumption (with_tier example_datasets (model ?self) ?entry 4) ?self
             (fresh example_config))
           = Inr (BlueToolFixup (constants ?self) # extended_sequence (constants ?self))"
    by (simp add: actions_of_prebuilt_assumption fallback_plan_def with_tier_def
        extended_sequence_def Let_def example_datasets_def)
  have base: "emits (Inr (BlueToolFixup (constants ?self) # extended_sequence (constants ?self)))
                (BlueToolFixup (constants ?self))"
    by (simp add: emits_def)
  have ext: "emits_block (Inr (BlueToolFixup (constants ?self) # extended_sequence (constants ?self)))
                (extended_sequence (constants ?self))"
    by (simp add: emits_block_def sublist_Cons_right)
  show ?thesis
    using lt B base ext
      fallback_monotonic_in_tier [OF lt, of example_datasets ?self ?entry example_config]
    by simp
qed

subsection \<open>Where the workaround stands in a result\<close>

lemma block_placed:
  assumes "filter is_firmware_action pre = []" and "filter is_firmware_action post = []"
    and "b \<in> set pre" and "as = pre @ workaround_actions @ post"
  shows "\<exists>pre post. as = pre @ workaround_actions @ post
           \<and> filter is_firmware_action pre = [] \<and> filter is_firmware_action post = []
           \<and> b \<in> set pre"
  using assms by blast

lemma live_plan_placed:
  assumes "live_plan d self = Inr as"
  shows "filter is_firmware_action as = []
         \<or> (\<exists>pre post. as = pre @ workaround_actions @ post
               \<and> filter is_firmware_action pre = [] \<and> filter is_firmware_action post = []
               \<and> BlueToolFixup (constants self) \<in> set pre)"
proof -
  let ?c = "constants self"
  let ?B = "BlueToolFixup ?c"
  have B: "\<not> is_firmware_action ?B" and S: "\<not> is_firmware_action (BluetoothSpoof ?c)"
    by (simp_all add: BlueToolFixup_def BluetoothSpoof_def)
  consider (none) "filter is_firmware_action as = []"
    | (legacy) "as = [?B, BluetoothSpoof ?c, SetBootArgument ''-btlfxallowanyaddr''] @ workaround_actions @ []"
    | (cpu) "as = [?B] @ workaround_actions @ []"
    | (both) "as = [?B, ?B] @ workaround_actions @ []"
    using assms B
    by (auto simp add: live_plan_def Let_def split: if_splits option.splits)
  then show ?thesis
  proof cases
    case none
    then show ?thesis by simp
  next
    case legacy
    show ?thesis
      by (rule disjI2, rule block_placed [OF _ _ _ legacy]) (simp_all add: B S)
  next
    case cpu
    show ?thesis
      by (rule disjI2, rule block_placed [OF _ _ _ cpu]) (simp_all add: B)
  next
    case both
    show ?thesis
      by (rule disjI2, rule block_placed [OF _ _ _ both]) (simp_all add: B)
  qed
qed

lemma fallback_plan_placed:
  "filter is_firmware_action (fallback_plan d self) = []
   \<or> (\<exists>pre post. fallback_plan d self = pre @ workaround_actions @ post
         \<and> filter is_firmware_action pre = [] \<and> filter is_firmware_action post = []
         \<and> BlueToolFixup (constants self) \<in> set pre)"
proof -
  let ?c = "constants self"
  let ?B = "BlueToolFixup ?c"
  have B: "\<not> is_firmware_action ?B" and S: "\<not> is_firmware_action (BluetoothSpoof ?c)"
    by (simp_all add: BlueToolFixup_def BluetoothSpoof_def)
  have "filter is_firmware_action (fallback_plan d self) = []
        \<or> fallback_plan d self =
            [?B, SetBootArgument ''-btlfxallowanyaddr''] @ workaround_actions @ [BluetoothSpoof ?c]"
    using B by (simp add: fallback_plan_def Let_def split: option.splits)
  then consider (none) "filter is_firmware_action (fallback_plan d self) = []"
    | (ext) "fallback_plan d self =
               [?B, SetBootArgument ''-btlfxallowanyaddr''] @ workaround_actions @ [BluetoothSpoof ?c]"
    by blast
  then show ?thesis
  proof cases
    case none
    then show ?thesis by simp
  next
    case ext
    show ?thesis
      by (rule disjI2, rule block_placed [OF _ _ _ ext]) (simp_all add: B S)
  qed
qed

text \<open>
  Claim C8. In every sequence of actions performed by either evaluator, the firmware
  variable actions are either absent or they are exactly the four actions of the
  workaround, standing together as one block (two variables set, then two marked for
  deletion), with no other firmware variable action before or after; and whenever the
  block is there, an enabling of \<open>BlueToolFixup.kext\<close> stands before it in the same
  sequence.
\<close>

theorem workaround_block_well_placed:
  assumes "actions_of (on_model d self (fresh cfg)) = Inr as
           \<or> actions_of (prebuilt_assumption d self (fresh cfg)) = Inr as"
  shows "filter is_firmware_action as = []
         \<or> (\<exists>pre post.
               as = pre @
                    [SetFirmwareVariable ''bluetoothInternalControllerInfo'' (replicate 14 0),
                     SetFirmwareVariable ''bluetoothExternalDongleFailed'' [0],
                     DeleteFirmwareVariable ''bluetoothInternalControllerInfo'',
                     DeleteFirmwareVariable ''bluetoothExternalDongleFailed''] @ post
               \<and> filter is_firmware_action pre = [] \<and> filter is_firmware_action post = []
               \<and> BlueToolFixup (constants self) \<in> set pre)"
proof -
  have W: "workaround_actions =
      [SetFirmwareVariable ''bluetoothInternalControllerInfo'' (replicate 14 0),
       SetFirmwareVariable ''bluetoothExternalDongleFailed'' [0],
       DeleteFirmwareVariable ''bluetoothInternalControllerInfo'',
       DeleteFirmwareVariable ''bluetoothExternalDongleFailed'']"
    by (simp add: workaround_actions_def zeros_def)
  from assms show ?thesis
  proof
    assume "actions_of (on_model d self (fresh cfg)) = Inr as"
    then have "live_plan d self = Inr as"
      by (simp add: actions_of_on_model)
    from live_plan_placed [OF this] show ?thesis
      unfolding W .
  next
    assume "actions_of (prebuilt_assumption d self (fresh cfg)) = Inr as"
    then have "fallback_plan d self = as"
      by (simp add: actions_of_prebuilt_assumption)
    with fallback_plan_placed [of d self] show ?thesis
      unfolding W by simp
  qed
qed

text \<open>
  The theorem at the fallback evaluator for a model of tier 4: the block stands third to
  sixth, after \<open>BlueToolFixup.kext\<close> and the boot argument.
\<close>

theorem workaround_block_well_placed_witness:
  "actions_of (prebuilt_assumption example_datasets
        \<lparr>model = ''MacBookPro8,1'', constants = example_constants True None None\<rparr>
        (fresh example_config))
     = Inr [BlueToolFixup (example_constants True None None),
            SetBootArgument ''-btlfxallowanyaddr'',
            SetFirmwareVariable ''bluetoothInternalControllerInfo'' (replicate 14 0),
            SetFirmwareVariable ''bluetoothExternalDongleFailed'' [0],
            DeleteFirmwareVariable ''bluetoothInternalControllerInfo'',
            DeleteFirmwareVariable ''bluetoothExternalDongleFailed'',
            BluetoothSpoof (example_constants True None None)]
   \<and> (\<exists>pre post.
         [BlueToolFixup (example_constants True None None),
          SetBootArgument ''-btlfxallowanyaddr'',
          SetFirmwareVariable ''bluetoothInternalControllerInfo'' (replicate 14 0),
          SetFirmwareVariable ''bluetoothExternalDongleFailed'' [0],
          DeleteFirmwareVariable ''bluetoothInternalControllerInfo'',
          DeleteFirmwareVariable ''bluetoothExternalDongleFailed'',
          BluetoothSpoof (example_constants True None None)]
         = pre @
           [SetFirmwareVariable ''bluetoothInternalControllerInfo'' (replicate 14 0),
            SetFirmwareVariable ''bluetoothExternalDongleFailed'' [0],
            DeleteFirmwareVariable ''bluetoothInternalControllerInfo'',
            DeleteFirmwareVariable ''bluetoothExternalDongleFailed''] @ post
         \<and> filter is_firmware_action pre = [] \<and> filter is_firmware_action post = []
         \<and> BlueToolFixup (example_constants True None None) \<in> set pre)"
proof -
  let ?self = "\<lparr>model = ''MacBookPro8,1'', constants = example_constants True None None\<rparr>"
  let ?as = "[BlueToolFixup (example_constants True None None),
            SetBootArgument ''-btlfxallowanyaddr'',
            SetFirmwareVariable ''bluetoothInternalControllerInfo'' (replicate 14 0),
            SetFirmwareVariable ''bluetoothExternalDongleFailed'' [0],
            DeleteFirmwareVariable ''bluetoothInternalControllerInfo'',
            DeleteFirmwareVariable ''bluetoothExternalDongleFailed'',
            BluetoothSpoof (example_constants True None None)]"
  have run: "actions_of (prebuilt_assumption example_datasets ?self (fresh example_config)) = Inr ?as"
    by (simp add: actions_of_prebuilt_assumption fallback_plan_def Let_def example_datasets_def
        workaround_actions_def zeros_def)
  have fw: "filter is_firmware_action ?as \<noteq> []"
    by simp
  from workaround_block_well_placed [of example_datasets ?self example_config ?as, OF disjI2, OF run] fw
  have "\<exists>pre post. ?as = pre @
           [SetFirmwareVariable ''bluetoothInternalControllerInfo'' (replicate 14 0),
            SetFirmwareVariable ''bluetoothExternalDongleFailed'' [0],
            DeleteFirmwareVariable ''bluetoothInternalControllerInfo'',
            DeleteFirmwareVariable ''bluetoothExternalDongleFailed''] @ post
         \<and> filter is_firmware_action pre = [] \<and> filter is_firmware_action post = []
         \<and> BlueToolFixup (constants ?self) \<in> set pre"
    by blast
  with run show ?thesis
    by simp
qed

subsection \<open>Determinism and the document\<close>

text \<open>
  Claim C9, as stated, says that resolution has no side effects. The methods write to
  \<open>self.config\<close>, the document the caller handed in: after a pass on a detected
  \<open>BRCM2070 Hub\<close> the document is not the one the pass started from (line 66 has
  appended the boot argument, among others).
\<close>

theorem resolution_mutates_document_counterexample:
  "document_of (init example_datasets ''MacPro3,1''
                  (example_constants False (Some ''BRCM2070 Hub'') None) example_config)
     \<noteq> Inr example_config"
  by (simp add: init_def build_def on_model_plan run_plan_def live_plan_def Let_def
      document_of_def perform_def example_simps zeros_def)

text \<open>
  Claim C9, amended. Resolution is deterministic, and what it performs depends neither
  on the document nor on earlier passes: from any two documents an evaluator performs the
  same sequence of actions (or raises the same error), and from any state, whatever
  earlier passes left in it, it performs exactly that sequence. Its effect is in place:
  the actions are appended to the journal and applied, in order, to the document.
\<close>

theorem resolution_deterministic_in_place:
  "actions_of (on_model d self (fresh cfg)) = actions_of (on_model d self (fresh cfg'))
   \<and> actions_of (prebuilt_assumption d self (fresh cfg))
       = actions_of (prebuilt_assumption d self (fresh cfg'))
   \<and> on_model d self s = run_plan (actions_of (on_model d self (fresh cfg))) s
   \<and> prebuilt_assumption d self s
       = run_plan (actions_of (prebuilt_assumption d self (fresh cfg))) s
   \<and> performed (perform_all as s) = performed s @ as
   \<and> config (perform_all as s) = fold apply_action as (config s)"
  unfolding actions_of_on_model actions_of_prebuilt_assumption
  by (simp add: on_model_plan prebuilt_assumption_plan run_plan_def performed_perform_all
      config_perform_all)

subsection \<open>Live and fallback order on the oldest hubs\<close>

text \<open>
  Claim C10. For a legacy hub (\<open>BRCM2070 Hub\<close> or \<open>BRCM2046 Hub\<close>) the live
  evaluator, and for a tier at most \<open>BRCM2070\<close> (and at most \<open>BRCM20702_v1\<close>) the fallback
  evaluator, perform the same seven distinct actions in different orders: the live path
  enables \<open>Bluetooth-Spoof.kext\<close> second, right after \<open>BlueToolFixup.kext\<close> and before
  the boot argument and the workaround; the fallback path enables it last.
\<close>

theorem live_and_fallback_order_differs:
  assumes "bluetooth_chipset (computer (constants self)) = Some ''BRCM2070 Hub''
           \<or> bluetooth_chipset (computer (constants self)) = Some ''BRCM2046 Hub''"
    and "smbios_dictionary d (model self) = Some entry"
    and "Bluetooth_Model entry = Some tier"
    and "tier \<le> BRCM20702_v1 d" and "tier \<le> BRCM2070 d"
  shows "\<exists>L F. actions_of (on_model d self (fresh cfg)) = Inr L
           \<and> actions_of (prebuilt_assumption d self (fresh cfg)) = Inr F
           \<and> length L = 7 \<and> length F = 7 \<and> distinct L \<and> distinct F \<and> set L = set F
           \<and> L \<noteq> F
           \<and> L = [BlueToolFixup (constants self), BluetoothSpoof (constants self),
                  SetBootArgument ''-btlfxallowanyaddr''] @ workaround_actions
           \<and> F = [BlueToolFixup (constants self), SetBootArgument ''-btlfxallowanyaddr'']
                   @ workaround_actions @ [BluetoothSpoof (constants self)]"
  using assms
  by (auto simp add: actions_of_on_model actions_of_prebuilt_assumption live_plan_def
      fallback_plan_def Let_def workaround_actions_def zeros_def BlueToolFixup_def
      BluetoothSpoof_def)

text \<open>
  The theorem at a detected \<open>BRCM2046 Hub\<close> and a model of tier 4:
  \<open>Bluetooth-Spoof.kext\<close> is at index 1 of the live sequence and at index 6 of the
  fallback sequence.
\<close>

theorem live_and_fallback_order_differs_witness:
  "bluetooth_chipset (computer (constants
       \<lparr>model = ''MacBookPro8,1'', constants = example_constants False (Some ''BRCM2046 Hub'') None\<rparr>))
     = Some ''BRCM2046 Hub''
   \<and> smbios_dictionary example_datasets ''MacBookPro8,1''
       = Some \<lparr>CPU_Generation = Some 4, Bluetooth_Model = Some 4\<rparr>
   \<and> (4::int) \<le> BRCM20702_v1 example_datasets \<and> (4::int) \<le> BRCM2070 example_datasets
   \<and> (\<exists>L F. actions_of (on_model example_datasets
                 \<lparr>model = ''MacBookPro8,1'',
                  constants = example_constants False (Some ''BRCM2046 Hub'') None\<rparr>
                 (fresh example_config)) = Inr L
           \<and> actions_of (prebuilt_assumption example_datasets
                 \<lparr>model = ''MacBookPro8,1'',
                  constants = example_constants False (Some ''BRCM2046 Hub'') None\<rparr>
                 (fresh example_config)) = Inr F
           \<and> set L = set F \<and> L \<noteq> F
           \<and> L ! 1 = EnablePatch ''Bluetooth-Spoof.kext'' ''1.0.0'' ''Bluetooth-Spoof-v1.0.0.zip''
           \<and> F ! 6 = EnablePatch ''Bluetooth-Spoof.kext'' ''1.0.0'' ''Bluetooth-Spoof-v1.0.0.zip'')"
proof -
  let ?self = "\<lparr>model = ''MacBookPro8,1'',
                constants = example_constants False (Some ''BRCM2046 Hub'') None\<rparr>"
  let ?entry = "\<lparr>CPU_Generation = Some 4, Bluetooth_Model = Some 4\<rparr>"
  have chip: "bluetooth_chipset (computer (constants ?self)) = Some ''BRCM2070 Hub''
              \<or> bluetooth_chipset (computer (constants ?self)) = Some ''BRCM2046 Hub''"
    by (simp add: example_constants_def)
  have entry: "smbios_dictionary example_datasets (model ?self) = Some ?entry"
    by (simp add: example_datasets_def)
  have tier: "Bluetooth_Model ?entry = Some 4"
    by simp
  have le1: "(4::int) \<le> BRCM20702_v1 example_datasets" and le2: "(4::int) \<le> BRCM2070 example_datasets"
    by (simp_all add: example_datasets_def)
  from live_and_fallback_order_differs [OF chip entry tier le1 le2, of example_config]
  obtain L F where
    L: "actions_of (on_model example_datasets ?self (fresh example_config)) = Inr L"
    and F: "actions_of (prebuilt_assumption example_datasets ?self (fresh example_config)) = Inr F"
    and same: "set L = set F" and differ: "L \<noteq> F"
    and L_eq: "L = [BlueToolFixup (constants ?self), BluetoothSpoof (constants ?self),
                  SetBootArgument ''-btlfxallowanyaddr''] @ workaround_actions"
    and F_eq: "F = [BlueToolFixup (constants ?self), SetBootArgument ''-btlfxallowanyaddr'']
                   @ workaround_actions @ [BluetoothSpoof (constants ?self)]"
    by blast
  have L1: "L ! 1 = EnablePatch ''Bluetooth-Spoof.kext'' ''1.0.0'' ''Bluetooth-Spoof-v1.0.0.zip''"
    by (simp add: L_eq BluetoothSpoof_def example_constants_def)
  have F6: "F ! 6 = EnablePatch ''Bluetooth-Spoof.kext'' ''1.0.0'' ''Bluetooth-Spoof-v1.0.0.zip''"
    by (simp add: F_eq BluetoothSpoof_def example_constants_def workaround_actions_def)
  have chip': "bluetooth_chipset (computer (constants ?self)) = Some ''BRCM2046 Hub''"
    by (simp add: example_constants_def)
  have entry': "smbios_dictionary example_datasets ''MacBookPro8,1'' = Some ?entry"
    using entry by simp
  show ?thesis
    using chip' entry' le1 le2 L F same differ L1 F6 by blast
qed

end
